theory Spec2Isabelle
  imports Complex_Main "HOL-Library.Log_Nat"
begin

section \<open>Python floats\<close>

text \<open>
  The amounts of the program are Python floats: \<^verbatim>\<open>depositar\<close> and \<^verbatim>\<open>sacar\<close> of the menu
  read them with \<^verbatim>\<open>float(input(...))\<close>, and the balance is a float from the first deposit
  on. A float is NaN, one of the two infinities, or a finite binary64 number, held here as
  the rational number it denotes. The two zeros of binary64 are one value: they compare
  equal and nothing in the program tells them apart. The integers the program starts from
  or compares with (the balance 0 of a new account, the literal 0, the ceiling 500) are held
  as the floats of the same value: Python compares an int and a float by value, and adds
  an int and a float as floats.
\<close>

datatype pyfloat = NaN | NegInf | PosInf | Fin rat

text \<open>
  Rounding of an exact result to binary64, to nearest with ties to even: 53 significant
  bits, the least exponent \<open>- 1074\<close> of the subnormal numbers, overflow to an infinity from
  \<open>2 ^ 1024\<close> on. \<open>piso_log2 a\<close> is the integer part of the binary logarithm of \<open>a > 0\<close>, from
  the bit lengths of numerator and denominator.
\<close>

definition piso_log2 :: "rat \<Rightarrow> int" where
  "piso_log2 a =
     (case quotient_of a of (n, d) \<Rightarrow>
        let k = bitlen n - bitlen d in if 2 powi k \<le> a then k else k - 1)"

definition inteiro_par :: "rat \<Rightarrow> int" where
  "inteiro_par q =
     (let f = \<lfloor>q\<rfloor>; r = q - of_int f
      in if r < 1 / 2 then f else if 1 / 2 < r then f + 1 else if even f then f else f + 1)"

definition maximo :: rat where
  "maximo = 2 powi 1024"

definition arredonda :: "rat \<Rightarrow> pyfloat" where
  "arredonda x =
     (if x = 0 then Fin 0
      else let a = \<bar>x\<bar>;
               e = max (- 1074) (piso_log2 a - 52);
               y = of_int (inteiro_par (a / 2 powi e)) * 2 powi e
           in if maximo \<le> y then (if 0 < x then PosInf else NegInf)
              else Fin (if 0 < x then y else - y))"

text \<open>Negation, addition and the comparisons \<^verbatim>\<open><\<close> and \<^verbatim>\<open><=\<close> of floats.\<close>

fun oposto :: "pyfloat \<Rightarrow> pyfloat" where
  "oposto NaN = NaN"
| "oposto NegInf = PosInf"
| "oposto PosInf = NegInf"
| "oposto (Fin a) = Fin (- a)"

fun soma :: "pyfloat \<Rightarrow> pyfloat \<Rightarrow> pyfloat" where
  "soma NaN y = NaN"
| "soma x NaN = NaN"
| "soma PosInf NegInf = NaN"
| "soma NegInf PosInf = NaN"
| "soma PosInf y = PosInf"
| "soma x PosInf = PosInf"
| "soma NegInf y = NegInf"
| "soma x NegInf = NegInf"
| "soma (Fin a) (Fin b) = arredonda (a + b)"

fun menor :: "pyfloat \<Rightarrow> pyfloat \<Rightarrow> bool" where
  "menor NaN y = False"
| "menor x NaN = False"
| "menor (Fin a) (Fin b) = (a < b)"
| "menor NegInf NegInf = False"
| "menor NegInf y = True"
| "menor x NegInf = False"
| "menor PosInf y = False"
| "menor x PosInf = True"

definition menor_igual :: "pyfloat \<Rightarrow> pyfloat \<Rightarrow> bool" where
  "menor_igual x y = (menor x y \<or> (x = y \<and> x \<noteq> NaN))"

text \<open>
  The operators of the program on floats: \<open>0\<close>, \<open>+\<close>, \<open>-\<close>, \<open><\<close>, \<open>\<le>\<close> (and \<open>>\<close>, \<open>\<ge>\<close>, which
  are \<open><\<close> and \<open>\<le>\<close> with the sides exchanged). Subtraction is the addition of the opposite,
  which rounds as the subtraction does.
\<close>

instantiation pyfloat :: "{zero, uminus, plus, minus, ord}"
begin

definition zero_pyfloat :: pyfloat where
  "zero_pyfloat = Fin 0"

definition uminus_pyfloat :: "pyfloat \<Rightarrow> pyfloat" where
  "uminus_pyfloat x = oposto x"

definition plus_pyfloat :: "pyfloat \<Rightarrow> pyfloat \<Rightarrow> pyfloat" where
  "plus_pyfloat x y = soma x y"

definition minus_pyfloat :: "pyfloat \<Rightarrow> pyfloat \<Rightarrow> pyfloat" where
  "minus_pyfloat x y = soma x (oposto y)"

definition less_pyfloat :: "pyfloat \<Rightarrow> pyfloat \<Rightarrow> bool" where
  "less_pyfloat x y = menor x y"

definition less_eq_pyfloat :: "pyfloat \<Rightarrow> pyfloat \<Rightarrow> bool" where
  "less_eq_pyfloat x y = menor_igual x y"

instance ..

end

section \<open>Data model of desafio\_v2.py\<close>

text \<open>
  The clock \<^verbatim>\<open>datetime.utcnow()\<close> is an explicit argument of every function that reads it,
  one argument per read.
\<close>

text \<open>
  A timestamp at second precision. \<^verbatim>\<open>Historico.adicionar_transacao\<close> stores the text
  \<^verbatim>\<open>strftime("%d-%m-%Y %H:%M:%S")\<close> of the clock and \<^verbatim>\<open>transacoes_do_dia\<close> reads it back
  with \<^verbatim>\<open>strptime\<close> under the same format; the model stores the six fields that text carries.
\<close>

record datahora =
  dia :: nat
  mes :: nat
  ano :: nat
  hora :: nat
  minuto :: nat
  segundo :: nat

text \<open>The \<^verbatim>\<open>.date()\<close> of a timestamp.\<close>

definition date :: "datahora \<Rightarrow> nat \<times> nat \<times> nat" where
  "date t = (ano t, mes t, dia t)"

text \<open>The two concrete subclasses of \<^verbatim>\<open>Transacao\<close>, each holding \<^verbatim>\<open>_valor\<close>.\<close>

datatype transacao = Saque pyfloat | Deposito pyfloat

text \<open>The property \<^verbatim>\<open>valor\<close> and \<^verbatim>\<open>__class__.__name__\<close> of a transaction.\<close>

fun valor_de :: "transacao \<Rightarrow> pyfloat" where
  "valor_de (Saque v) = v"
| "valor_de (Deposito v) = v"

fun nome_classe :: "transacao \<Rightarrow> string" where
  "nome_classe (Saque v) = ''Saque''"
| "nome_classe (Deposito v) = ''Deposito''"

text \<open>One entry of \<^verbatim>\<open>Historico._transacoes\<close>: the dict with keys tipo, valor, data.\<close>

record registro =
  tipo :: string
  valor :: pyfloat
  data :: datahora

text \<open>\<^verbatim>\<open>Historico\<close> has the single field \<^verbatim>\<open>_transacoes\<close>, a list in insertion order.\<close>

type_synonym historico = "registro list"

text \<open>
  \<^verbatim>\<open>Conta\<close>; the owning customer is a reference, kept as an identifier.
  \<^verbatim>\<open>ContaCorrente\<close> inherits from it and adds the two ceilings.
\<close>

record conta =
  saldo :: pyfloat
  numero :: nat
  agencia :: string
  cliente :: nat
  historico :: historico

record conta_corrente = conta +
  limite :: pyfloat
  limite_saques :: int

text \<open>An account object with its run-time class, for the calls the program dispatches on it.\<close>

datatype objeto_conta = ObjConta conta | ObjContaCorrente conta_corrente

text \<open>\<^verbatim>\<open>Cliente\<close>, with its list of owned accounts.\<close>

record cliente_t =
  endereco :: string
  contas :: "objeto_conta list"
  indice_conta :: nat

text \<open>
  The lines the core prints, one constructor per message text:
  \<^item> \<open>MsgSaldoInsuficiente\<close>: "Operacao falhou! Voce nao tem saldo suficiente." (InsufficientFunds)
  \<^item> \<open>MsgValorInvalido\<close>: "Operacao falhou! O valor informado e invalido." (InvalidAmount)
  \<^item> \<open>MsgSaqueSucesso\<close>: "=== Saque realizado com sucesso! ==="
  \<^item> \<open>MsgDepositoSucesso\<close>: "=== Deposito realizado com sucesso! ==="
  \<^item> \<open>MsgLimiteExcedido\<close>: "Operacao falhou! O valor do saque excede o limite." (WithdrawalLimitExceeded)
  \<^item> \<open>MsgSaquesExcedidos\<close>: "Operacao falhou! Numero maximo de saques excedido." (WithdrawalCountExceeded)
  \<^item> \<open>MsgTransacoesDia\<close>: "Voce excedeu o numero de transacoes permitidas para hoje!" (DailyLimitExceeded)
\<close>

datatype mensagem =
  MsgSaldoInsuficiente
| MsgValorInvalido
| MsgSaqueSucesso
| MsgDepositoSucesso
| MsgLimiteExcedido
| MsgSaquesExcedidos
| MsgTransacoesDia

text \<open>What a Python call hands back to its caller: \<^verbatim>\<open>None\<close> or a boolean.\<close>

datatype retorno = PyNone | PyBool bool

section \<open>Conta\<close>

text \<open>\<^verbatim>\<open>Conta.__init__\<close> and the classmethod \<^verbatim>\<open>Conta.nova_conta(cliente, numero)\<close>.\<close>

definition Conta_init :: "nat \<Rightarrow> nat \<Rightarrow> conta" where
  "Conta_init num cli =
     \<lparr>saldo = 0, numero = num, agencia = ''0001'', cliente = cli, historico = []\<rparr>"

definition Conta_nova_conta :: "nat \<Rightarrow> nat \<Rightarrow> conta" where
  "Conta_nova_conta cli num = Conta_init num cli"

text \<open>
  \<^verbatim>\<open>Conta.sacar\<close>: result, printed lines, account after the call. The checks are in the
  order of the source: \<^verbatim>\<open>valor > saldo\<close>, then \<^verbatim>\<open>valor > 0\<close>.
\<close>

definition Conta_sacar ::
  "'a conta_scheme \<Rightarrow> pyfloat \<Rightarrow> bool \<times> mensagem list \<times> 'a conta_scheme" where
  "Conta_sacar c v =
     (let s = saldo c;
          excedeu_saldo = v > s
      in if excedeu_saldo then (False, [MsgSaldoInsuficiente], c)
         else if v > 0 then (True, [MsgSaqueSucesso], c\<lparr>saldo := saldo c - v\<rparr>)
         else (False, [MsgValorInvalido], c))"

text \<open>\<^verbatim>\<open>Conta.depositar\<close>.\<close>

definition Conta_depositar ::
  "'a conta_scheme \<Rightarrow> pyfloat \<Rightarrow> bool \<times> mensagem list \<times> 'a conta_scheme" where
  "Conta_depositar c v =
     (if v > 0 then (True, [MsgDepositoSucesso], c\<lparr>saldo := saldo c + v\<rparr>)
      else (False, [MsgValorInvalido], c))"

section \<open>ContaCorrente\<close>

text \<open>
  \<^verbatim>\<open>ContaCorrente.__init__(numero, cliente, limite=500, limite_saques=3)\<close> and the
  classmethod \<^verbatim>\<open>nova_conta(cliente, numero, limite, limite_saques)\<close>.
\<close>

definition ContaCorrente_init :: "nat \<Rightarrow> nat \<Rightarrow> pyfloat \<Rightarrow> int \<Rightarrow> conta_corrente" where
  "ContaCorrente_init num cli teto teto_saques =
     conta.extend (Conta_init num cli) \<lparr>limite = teto, limite_saques = teto_saques\<rparr>"

definition ContaCorrente_nova_conta :: "nat \<Rightarrow> nat \<Rightarrow> pyfloat \<Rightarrow> int \<Rightarrow> conta_corrente" where
  "ContaCorrente_nova_conta cli num teto teto_saques = ContaCorrente_init num cli teto teto_saques"

text \<open>The number of history entries whose tipo is \<^verbatim>\<open>Saque.__name__\<close>.\<close>

definition numero_saques :: "historico \<Rightarrow> nat" where
  "numero_saques h = length [t \<leftarrow> h. tipo t = ''Saque'']"

text \<open>\<^verbatim>\<open>ContaCorrente.sacar\<close>; the last branch is \<^verbatim>\<open>super().sacar(valor)\<close>.\<close>

definition ContaCorrente_sacar ::
  "conta_corrente \<Rightarrow> pyfloat \<Rightarrow> bool \<times> mensagem list \<times> conta_corrente" where
  "ContaCorrente_sacar c v =
     (let n = numero_saques (historico c);
          excedeu_limite = v > limite c;
          excedeu_saques = int n \<ge> limite_saques c
      in if excedeu_limite then (False, [MsgLimiteExcedido], c)
         else if excedeu_saques then (False, [MsgSaquesExcedidos], c)
         else Conta_sacar c v)"

section \<open>Calls on an account object\<close>

text \<open>
  \<^verbatim>\<open>conta.sacar(valor)\<close> runs the method of the object's class; \<^verbatim>\<open>conta.depositar(valor)\<close>
  runs \<^verbatim>\<open>Conta.depositar\<close> for both classes, since \<^verbatim>\<open>ContaCorrente\<close> does not define it.
\<close>

fun sacar :: "objeto_conta \<Rightarrow> pyfloat \<Rightarrow> bool \<times> mensagem list \<times> objeto_conta" where
  "sacar (ObjConta c) v =
     (case Conta_sacar c v of (ok, out, c') \<Rightarrow> (ok, out, ObjConta c'))"
| "sacar (ObjContaCorrente c) v =
     (case ContaCorrente_sacar c v of (ok, out, c') \<Rightarrow> (ok, out, ObjContaCorrente c'))"

fun depositar :: "objeto_conta \<Rightarrow> pyfloat \<Rightarrow> bool \<times> mensagem list \<times> objeto_conta" where
  "depositar (ObjConta c) v =
     (case Conta_depositar c v of (ok, out, c') \<Rightarrow> (ok, out, ObjConta c'))"
| "depositar (ObjContaCorrente c) v =
     (case Conta_depositar c v of (ok, out, c') \<Rightarrow> (ok, out, ObjContaCorrente c'))"

text \<open>The properties \<^verbatim>\<open>saldo\<close> and \<^verbatim>\<open>historico\<close> of an account object.\<close>

fun saldo_de :: "objeto_conta \<Rightarrow> pyfloat" where
  "saldo_de (ObjConta c) = saldo c"
| "saldo_de (ObjContaCorrente c) = saldo c"

fun historico_de :: "objeto_conta \<Rightarrow> historico" where
  "historico_de (ObjConta c) = historico c"
| "historico_de (ObjContaCorrente c) = historico c"

text \<open>The account object after its history list has been replaced by \<open>h\<close>.\<close>

fun com_historico :: "objeto_conta \<Rightarrow> historico \<Rightarrow> objeto_conta" where
  "com_historico (ObjConta c) h = ObjConta (c\<lparr>historico := h\<rparr>)"
| "com_historico (ObjContaCorrente c) h = ObjContaCorrente (c\<lparr>historico := h\<rparr>)"

section \<open>Historico\<close>

text \<open>\<^verbatim>\<open>Historico.adicionar_transacao\<close>; \<open>agora\<close> is the clock read inside it.\<close>

definition adicionar_transacao :: "datahora \<Rightarrow> transacao \<Rightarrow> historico \<Rightarrow> historico" where
  "adicionar_transacao agora t h =
     h @ [\<lparr>tipo = nome_classe t, valor = valor_de t, data = agora\<rparr>]"

text \<open>\<^verbatim>\<open>Historico.transacoes_do_dia\<close>; \<open>agora\<close> is the clock read at its first line.\<close>

definition transacoes_do_dia :: "datahora \<Rightarrow> historico \<Rightarrow> registro list" where
  "transacoes_do_dia agora h = [t \<leftarrow> h. date agora = date (data t)]"

text \<open>
  \<^verbatim>\<open>str.lower()\<close> on the letters A to Z; the class names stored in tipo are ASCII.
\<close>

definition lower_char :: "char \<Rightarrow> char" where
  "lower_char c =
     (let n = (of_char c :: nat) in if 65 \<le> n \<and> n \<le> 90 then char_of (n + 32) else c)"

definition lower :: "string \<Rightarrow> string" where
  "lower s = map lower_char s"

text \<open>The condition of the \<^verbatim>\<open>if\<close> inside \<^verbatim>\<open>gerar_relatorio\<close>.\<close>

definition aceita :: "string option \<Rightarrow> registro \<Rightarrow> bool" where
  "aceita tipo_transacao t =
     (case tipo_transacao of None \<Rightarrow> True | Some f \<Rightarrow> lower (tipo t) = lower f)"

text \<open>
  \<^verbatim>\<open>Historico.gerar_relatorio\<close> is a generator function: a call builds a generator object
  that holds the argument and the position of the \<^verbatim>\<open>for\<close> loop in the list, and runs
  nothing until it is asked for an element.
\<close>

record gerador =
  tipo_transacao :: "string option"
  indice :: nat

definition gerar_relatorio :: "string option \<Rightarrow> gerador" where
  "gerar_relatorio f = \<lparr>tipo_transacao = f, indice = 0\<rparr>"

text \<open>
  One \<^verbatim>\<open>next()\<close> on the generator over the list \<open>h\<close>: the loop advances to the next
  accepted entry and yields it, or the list ends (\<open>None\<close>, Python's StopIteration).
\<close>

function proximo :: "historico \<Rightarrow> gerador \<Rightarrow> registro option \<times> gerador" where
  "proximo h g =
     (if indice g < length h
      then (let t = h ! indice g; g' = g\<lparr>indice := indice g + 1\<rparr>
            in if aceita (tipo_transacao g) t then (Some t, g') else proximo h g')
      else (None, g))"
  by pat_completeness auto
termination
  by (relation "measure (\<lambda>(h, g). length h - indice g)") auto

section \<open>Transacao\<close>

text \<open>
  \<^verbatim>\<open>Saque.registrar\<close> and \<^verbatim>\<open>Deposito.registrar\<close>; \<open>agora\<close> is the clock read by
  \<^verbatim>\<open>adicionar_transacao\<close>. Neither method has a \<^verbatim>\<open>return\<close> statement.
\<close>

fun registrar :: "datahora \<Rightarrow> transacao \<Rightarrow> objeto_conta \<Rightarrow> retorno \<times> mensagem list \<times> objeto_conta" where
  "registrar agora (Saque v) c =
     (case sacar c (valor_de (Saque v)) of (sucesso_transacao, out, c') \<Rightarrow>
        if sucesso_transacao
        then (PyNone, out, com_historico c' (adicionar_transacao agora (Saque v) (historico_de c')))
        else (PyNone, out, c'))"
| "registrar agora (Deposito v) c =
     (case depositar c (valor_de (Deposito v)) of (sucesso_transacao, out, c') \<Rightarrow>
        if sucesso_transacao
        then (PyNone, out, com_historico c' (adicionar_transacao agora (Deposito v) (historico_de c')))
        else (PyNone, out, c'))"

section \<open>Cliente\<close>

text \<open>
  \<^verbatim>\<open>Cliente.realizar_transacao(self, conta, transacao)\<close>. \<open>agora_dia\<close> is the clock read by
  \<^verbatim>\<open>transacoes_do_dia\<close>, \<open>agora_reg\<close> the one read when the transaction is recorded. The result
  of \<^verbatim>\<open>transacao.registrar(conta)\<close> is dropped.
\<close>

definition realizar_transacao ::
  "'a cliente_t_scheme \<Rightarrow> datahora \<Rightarrow> datahora \<Rightarrow> objeto_conta \<Rightarrow> transacao
     \<Rightarrow> retorno \<times> mensagem list \<times> objeto_conta" where
  "realizar_transacao self agora_dia agora_reg c t =
     (if length (transacoes_do_dia agora_dia (historico_de c)) \<ge> 2
      then (PyNone, [MsgTransacoesDia], c)
      else (case registrar agora_reg t c of (r, out, c') \<Rightarrow> (PyNone, out, c')))"

text \<open>\<^verbatim>\<open>Cliente.__init__\<close> and \<^verbatim>\<open>Cliente.adicionar_conta\<close>.\<close>

definition Cliente_init :: "string \<Rightarrow> cliente_t" where
  "Cliente_init e = \<lparr>endereco = e, contas = [], indice_conta = 0\<rparr>"

definition adicionar_conta :: "'a cliente_t_scheme \<Rightarrow> objeto_conta \<Rightarrow> 'a cliente_t_scheme" where
  "adicionar_conta self c = self\<lparr>contas := contas self @ [c]\<rparr>"

section \<open>Iterating a report\<close>

text \<open>
  Consuming a generator to its end over the list \<open>h\<close>, as \<^verbatim>\<open>for transacao in
  conta.historico.gerar_relatorio()\<close> or \<^verbatim>\<open>list(...)\<close> does: \<^verbatim>\<open>next()\<close> until StopIteration.
\<close>

function consumir :: "historico \<Rightarrow> gerador \<Rightarrow> registro list" where
  "consumir h g =
     (case proximo h g of
        (None, g') \<Rightarrow> []
      | (Some t, g') \<Rightarrow> t # consumir h g')"
  by pat_completeness auto

lemma proximo_avanca:
  "proximo h g = (Some t, g') \<Longrightarrow> indice g < indice g' \<and> indice g' \<le> length h"
proof (induction h g rule: proximo.induct)
  case (1 h g)
  show ?case
  proof (cases "indice g < length h")
    case False
    with "1.prems" show ?thesis by simp
  next
    case True
    show ?thesis
    proof (cases "aceita (tipo_transacao g) (h ! indice g)")
      case True
      with \<open>indice g < length h\<close> "1.prems" show ?thesis by (auto simp: Let_def)
    next
      case False
      with \<open>indice g < length h\<close> "1.prems"
      have "proximo h (g\<lparr>indice := indice g + 1\<rparr>) = (Some t, g')" by (simp add: Let_def)
      from "1.IH"[OF \<open>indice g < length h\<close> refl refl False this] show ?thesis by simp
    qed
  qed
qed

termination consumir
proof (relation "measure (\<lambda>(h, g). length h - indice g)")
  show "wf (measure (\<lambda>(h, g). length h - indice g))" by simp
next
  fix h g x1 x2 t
  assume "(x1, x2) = proximo h g" "x1 = Some t"
  then have "proximo h g = (Some t, x2)" by simp
  from proximo_avanca[OF this]
  show "((h, x2), (h, g)) \<in> measure (\<lambda>(h, g). length h - indice g)" by auto
qed

declare proximo.simps [simp del]
declare consumir.simps [simp del]

section \<open>Sequences of calls on one account\<close>

text \<open>
  A call of one of the two primitives on an account object, and a finite sequence of such
  calls run in order on the same object; the boolean results and the printed lines are
  dropped, the object is kept.
\<close>

datatype chamada = Depositar pyfloat | Sacar pyfloat

fun chamar :: "objeto_conta \<Rightarrow> chamada \<Rightarrow> objeto_conta" where
  "chamar c (Depositar v) = snd (snd (depositar c v))"
| "chamar c (Sacar v) = snd (snd (sacar c v))"

definition executar :: "chamada list \<Rightarrow> objeto_conta \<Rightarrow> objeto_conta" where
  "executar cs c = foldl chamar c cs"

section \<open>Transactions in sequence, and the reading of the daily cap per customer\<close>

text \<open>
  Transactions registered one after the other on the same account object, every clock read
  giving \<open>agora\<close>.
\<close>

fun registrar_todas :: "datahora \<Rightarrow> transacao list \<Rightarrow> objeto_conta \<Rightarrow> objeto_conta" where
  "registrar_todas agora [] c = c"
| "registrar_todas agora (t # ts) c = registrar_todas agora ts (snd (snd (registrar agora t c)))"

text \<open>
  The count in the words of the specification, to be compared with what
  \<^verbatim>\<open>realizar_transacao\<close> counts: the operations a customer completed today on any of the
  customer's accounts, that is the entries dated today in the histories of all owned accounts.
\<close>

definition spec_operacoes_hoje_cliente :: "datahora \<Rightarrow> 'a cliente_t_scheme \<Rightarrow> nat" where
  "spec_operacoes_hoje_cliente agora cl =
     sum_list (map (\<lambda>c. length (transacoes_do_dia agora (historico_de c))) (contas cl))"

section \<open>Concrete accounts\<close>

text \<open>Two clock readings, on consecutive days.\<close>

definition ex_hoje :: datahora where
  "ex_hoje = \<lparr>dia = 4, mes = 11, ano = 2026, hora = 10, minuto = 30, segundo = 0\<rparr>"

definition ex_amanha :: datahora where
  "ex_amanha = \<lparr>dia = 5, mes = 11, ano = 2026, hora = 0, minuto = 0, segundo = 1\<rparr>"

text \<open>
  \<open>ex_conta_a\<close>: a checking account created as the program creates them (ceiling 500, at
  most 50 withdrawals) after a deposit of 1000 and a withdrawal of 500 today.
  \<open>ex_conta_b\<close>: a second, new account; \<open>ex_cliente\<close> owns both.
  \<open>ex_tres_saques\<close>: a checking account with the default ceilings (500, 3 withdrawals)
  after a deposit of 2000 and three withdrawals of 100.
\<close>

definition ex_conta_a :: objeto_conta where
  "ex_conta_a = ObjContaCorrente ((ContaCorrente_nova_conta 7 1 (Fin 500) 50)
     \<lparr>saldo := Fin 500,
      historico := [\<lparr>tipo = ''Deposito'', valor = Fin 1000, data = ex_hoje\<rparr>,
                    \<lparr>tipo = ''Saque'', valor = Fin 500, data = ex_hoje\<rparr>]\<rparr>)"

definition ex_conta_b :: objeto_conta where
  "ex_conta_b = ObjContaCorrente (ContaCorrente_nova_conta 7 2 (Fin 500) 50)"

definition ex_cliente :: cliente_t where
  "ex_cliente = adicionar_conta (adicionar_conta (Cliente_init ''Rua A, 1'') ex_conta_a) ex_conta_b"

definition ex_tres_saques :: conta_corrente where
  "ex_tres_saques = (ContaCorrente_init 1 7 (Fin 500) 3)
     \<lparr>saldo := Fin 1700,
      historico := [\<lparr>tipo = ''Deposito'', valor = Fin 2000, data = ex_hoje\<rparr>,
                    \<lparr>tipo = ''Saque'', valor = Fin 100, data = ex_hoje\<rparr>,
                    \<lparr>tipo = ''Saque'', valor = Fin 100, data = ex_hoje\<rparr>,
                    \<lparr>tipo = ''Saque'', valor = Fin 100, data = ex_hoje\<rparr>]\<rparr>"

text \<open>\<open>ex_extrato\<close>: a history of three entries, for the reports.\<close>

definition ex_extrato :: historico where
  "ex_extrato = [\<lparr>tipo = ''Deposito'', valor = Fin 1000, data = ex_hoje\<rparr>,
                 \<lparr>tipo = ''Saque'', valor = Fin 500, data = ex_hoje\<rparr>,
                 \<lparr>tipo = ''Saque'', valor = Fin 20, data = ex_amanha\<rparr>]"

text \<open>
  \<open>ex_conta_grande\<close>: a checking account created as the program creates them, after a
  deposit of \<open>10 ^ 16\<close>.
\<close>

definition ex_conta_grande :: conta_corrente where
  "ex_conta_grande = (ContaCorrente_nova_conta 7 3 (Fin 500) 50)
     \<lparr>saldo := Fin 10000000000000000,
      historico := [\<lparr>tipo = ''Deposito'', valor = Fin 10000000000000000, data = ex_hoje\<rparr>]\<rparr>"

section \<open>Rounding\<close>

lemma inteiro_par_of_int: "inteiro_par (of_int z) = z"
  by (simp add: inteiro_par_def)

lemma inteiro_par_nao_neg: "0 \<le> q \<Longrightarrow> 0 \<le> inteiro_par q"
  by (auto simp: inteiro_par_def Let_def)

lemma piso_log2_inferior:
  assumes "0 < a"
  shows "2 powi (piso_log2 a) \<le> a"
proof -
  obtain n d where q: "quotient_of a = (n, d)" by (cases "quotient_of a")
  then have d: "0 < d" and a: "a = of_int n / of_int d"
    by (rule quotient_of_denom_pos, rule quotient_of_div)
  with assms have n: "0 < n" by (simp add: zero_less_divide_iff)
  let ?k = "bitlen n - bitlen d"
  show ?thesis
  proof (cases "2 powi ?k \<le> a")
    case True
    then show ?thesis using q by (simp add: piso_log2_def Let_def)
  next
    case False
    from n have bn: "1 \<le> bitlen n" by (simp add: bitlen_alt_def)
    from bitlen_bounds [OF n] have "(2 :: int) ^ nat (bitlen n - 1) \<le> n" by simp
    then have "(of_int ((2 :: int) ^ nat (bitlen n - 1)) :: rat) \<le> of_int n"
      by (simp only: of_int_le_iff)
    with bn have n': "(2 :: rat) powi (bitlen n - 1) \<le> of_int n"
      by (simp add: power_int_def)
    from bitlen_bounds [OF d] have "d < (2 :: int) ^ nat (bitlen d)" by simp
    then have "(of_int d :: rat) < of_int ((2 :: int) ^ nat (bitlen d))"
      by (simp only: of_int_less_iff)
    then have d': "(of_int d :: rat) \<le> 2 powi (bitlen d)"
      using bitlen_nonneg [of d] by (simp add: power_int_def)
    have "(2 :: rat) powi (?k - 1) = 2 powi (bitlen n - 1) / 2 powi (bitlen d)"
      using power_int_diff [of "2 :: rat" "bitlen n - 1" "bitlen d"] by (simp add: algebra_simps)
    also have "\<dots> \<le> of_int n / of_int d"
      using n' d' d n by (intro frac_le) simp_all
    finally show ?thesis using False q a by (simp add: piso_log2_def Let_def)
  qed
qed

text \<open>
  A number with at most 53 significant bits and an exponent in the range of binary64 is
  its own rounding: the sum or difference of two floats that is such a number is exact.
\<close>

lemma arredonda_representavel:
  assumes r: "r = of_int m * 2 powi e" and m: "\<bar>m\<bar> < 2 ^ 53"
    and e1: "- 1074 \<le> e" and e2: "e \<le> 971"
  shows "arredonda r = Fin r"
proof (cases "m = 0")
  case True
  with r show ?thesis by (simp add: arredonda_def)
next
  case False
  define a where "a = \<bar>r\<bar>"
  have a: "a = of_int \<bar>m\<bar> * 2 powi e" by (simp add: a_def r abs_mult)
  from False have apos: "0 < a" by (simp add: a)
  from False r have r0: "r \<noteq> 0" by simp
  define k where "k = piso_log2 a"
  define e' where "e' = max (- 1074) (k - 52)"
  have "(of_int \<bar>m\<bar> :: rat) < of_int (2 ^ 53)" using m by (simp only: of_int_less_iff)
  then have "a < 2 ^ 53 * 2 powi e" by (simp add: a)
  also have "\<dots> = 2 powi (53 + e)" by (simp add: power_int_add)
  finally have a_sup: "a < 2 powi (53 + e)" .
  from piso_log2_inferior [OF apos] have "2 powi k \<le> a" by (simp add: k_def)
  from this a_sup have "(2 :: rat) powi k < 2 powi (53 + e)" by (rule le_less_trans)
  have "k < 53 + e"
  proof (rule ccontr)
    assume "\<not> k < 53 + e"
    then have "53 + e \<le> k" by simp
    then have "(2 :: rat) powi (53 + e) \<le> 2 powi k" by (intro power_int_increasing) simp_all
    with \<open>2 powi k < 2 powi (53 + e)\<close> show False by simp
  qed
  with e1 have ee: "e' \<le> e" by (simp add: e'_def)
  define z where "z = \<bar>m\<bar> * 2 ^ nat (e - e')"
  have "(2 :: rat) powi e = 2 powi (e - e') * 2 powi e'"
    using power_int_add [of "2 :: rat" "e - e'" e'] by simp
  also have "(2 :: rat) powi (e - e') = 2 ^ nat (e - e')" using ee by (simp add: power_int_def)
  finally have pe: "(2 :: rat) powi e = 2 ^ nat (e - e') * 2 powi e'" .
  have q: "a / 2 powi e' = of_int z" by (simp add: a pe z_def)
  have y: "of_int (inteiro_par (a / 2 powi e')) * 2 powi e' = a"
    by (simp add: q inteiro_par_of_int) (simp add: a pe z_def)
  from e2 have "53 + e \<le> 1024" by simp
  then have "(2 :: rat) powi (53 + e) \<le> 2 powi 1024" by (rule power_int_increasing) simp
  with a_sup have "a < maximo" unfolding maximo_def by (rule less_le_trans)
  then have nao: "\<not> maximo \<le> a" by simp
  have "arredonda r = Fin (if 0 < r then a else - a)"
    using r0 nao y
    unfolding arredonda_def a_def [symmetric] k_def [symmetric] e'_def [symmetric] Let_def
    by simp
  also have "(if 0 < r then a else - a) = r" using r0 by (simp add: a_def)
  finally show ?thesis .
qed

text \<open>The rounding of a number that is not negative is not negative and is not NaN.\<close>

lemma arredonda_sinal:
  assumes "0 \<le> x"
  shows "arredonda x = PosInf \<or> (\<exists>r. 0 \<le> r \<and> arredonda x = Fin r)"
proof (cases "x = 0")
  case True
  then show ?thesis by (simp add: arredonda_def)
next
  case False
  with assms have x: "0 < x" by simp
  define e where "e = max (- 1074) (piso_log2 \<bar>x\<bar> - 52)"
  define y where "y = of_int (inteiro_par (\<bar>x\<bar> / 2 powi e)) * (2 :: rat) powi e"
  have "0 \<le> inteiro_par (\<bar>x\<bar> / 2 powi e)" by (rule inteiro_par_nao_neg) simp
  then have "0 \<le> y" by (simp add: y_def)
  moreover have "arredonda x = (if maximo \<le> y then PosInf else Fin y)"
    using x unfolding arredonda_def e_def [symmetric] y_def [symmetric] Let_def by simp
  ultimately show ?thesis by auto
qed

lemma arredonda_zero: "arredonda 0 = Fin 0"
  by (simp add: arredonda_def)

lemma arredonda_numeral:
  "numeral n < (2 :: int) ^ 53 \<Longrightarrow> arredonda (numeral n) = Fin (numeral n)"
  using arredonda_representavel [where m = "numeral n" and e = 0 and r = "numeral n"] by simp

lemma arredonda_grande:
  "arredonda 10000000000000001 = Fin 10000000000000000"
  "arredonda 9999999999999999 = Fin 10000000000000000"
  "arredonda 10000000000000000 = Fin 10000000000000000"
  by code_simp+

text \<open>
  The floats written 0.1 and 0.2 add up to the float written 0.30000000000000004, above the
  exact sum of the two.
\<close>

lemma soma_decimos:
  "Fin (3602879701896397 / 36028797018963968) + Fin (3602879701896397 / 18014398509481984)
     = Fin (1351079888211149 / 4503599627370496)"
  by code_simp

lemmas pyfloat_ops = zero_pyfloat_def uminus_pyfloat_def plus_pyfloat_def minus_pyfloat_def
  less_pyfloat_def less_eq_pyfloat_def menor_igual_def
lemmas ex_defs = ex_hoje_def ex_amanha_def ex_conta_a_def ex_conta_b_def ex_cliente_def
  ex_tres_saques_def ex_conta_grande_def
lemmas modelo_defs = ContaCorrente_nova_conta_def ContaCorrente_init_def Conta_init_def conta.defs
  Conta_sacar_def Conta_depositar_def ContaCorrente_sacar_def numero_saques_def Let_def
  realizar_transacao_def transacoes_do_dia_def date_def adicionar_transacao_def
  Cliente_init_def adicionar_conta_def pyfloat_ops arredonda_zero arredonda_numeral

section \<open>Signs of sums and differences\<close>

lemma nao_neg_casos: "(0 :: pyfloat) \<le> s \<longleftrightarrow> s = PosInf \<or> (\<exists>r. 0 \<le> r \<and> s = Fin r)"
  by (cases s) (auto simp: pyfloat_ops)

lemma positivo_casos: "(0 :: pyfloat) < v \<longleftrightarrow> v = PosInf \<or> (\<exists>x. 0 < x \<and> v = Fin x)"
  by (cases v) (auto simp: pyfloat_ops)

lemma nao_menor_casos: "\<not> s < (0 :: pyfloat) \<longleftrightarrow> s = NaN \<or> 0 \<le> s"
  by (cases s) (auto simp: pyfloat_ops)

lemma arredonda_nao_neg: "0 \<le> x \<Longrightarrow> (0 :: pyfloat) \<le> arredonda x"
  using arredonda_sinal [of x] by (simp add: nao_neg_casos)

lemma soma_nao_neg:
  assumes "(0 :: pyfloat) \<le> s" and "0 < v"
  shows "0 \<le> s + v"
proof -
  from assms(1) consider "s = PosInf" | r where "0 \<le> r" "s = Fin r"
    by (auto simp: nao_neg_casos)
  then show ?thesis
  proof cases
    case 1
    with assms(2) show ?thesis by (auto simp: positivo_casos nao_neg_casos plus_pyfloat_def)
  next
    case 2
    from assms(2) consider "v = PosInf" | x where "0 < x" "v = Fin x"
      by (auto simp: positivo_casos)
    then show ?thesis
    proof cases
      case 1
      with 2 show ?thesis by (simp add: nao_neg_casos plus_pyfloat_def)
    next
      case (2 x)
      with \<open>0 \<le> r\<close> \<open>s = Fin r\<close> arredonda_nao_neg [of "r + x"] show ?thesis
        by (simp add: plus_pyfloat_def)
    qed
  qed
qed

lemma soma_nao_menor:
  assumes "\<not> s < (0 :: pyfloat)" and "0 < v"
  shows "\<not> s + v < 0"
proof (cases "s = NaN")
  case True
  then show ?thesis by (simp add: pyfloat_ops)
next
  case False
  with assms(1) have "0 \<le> s" by (simp add: nao_menor_casos)
  from soma_nao_neg [OF this assms(2)] show ?thesis by (simp add: nao_menor_casos)
qed

lemma diferenca_nao_neg:
  assumes "(0 :: pyfloat) \<le> s" and "\<not> s < v" and "0 < v" and "v \<noteq> PosInf"
  shows "0 \<le> s - v"
proof -
  from assms(3,4) obtain x where x: "0 < x" "v = Fin x" by (auto simp: positivo_casos)
  from assms(1) consider "s = PosInf" | r where "0 \<le> r" "s = Fin r"
    by (auto simp: nao_neg_casos)
  then show ?thesis
  proof cases
    case 1
    with x show ?thesis by (simp add: nao_neg_casos minus_pyfloat_def)
  next
    case (2 r)
    with assms(2) x have "x \<le> r" by (simp add: less_pyfloat_def)
    with 2 x arredonda_nao_neg [of "r - x"] show ?thesis by (simp add: minus_pyfloat_def)
  qed
qed

lemma diferenca_nao_menor:
  assumes "\<not> s < (0 :: pyfloat)" and "\<not> s < v" and "0 < v"
  shows "\<not> s - v < 0"
proof (cases "s = NaN")
  case True
  then show ?thesis by (simp add: pyfloat_ops)
next
  case False
  with assms(1) have s: "0 \<le> s" by (simp add: nao_menor_casos)
  show ?thesis
  proof (cases "v = PosInf")
    case True
    with s assms(2) have "s = PosInf" by (auto simp: nao_neg_casos less_pyfloat_def)
    with True show ?thesis by (simp add: pyfloat_ops)
  next
    case False
    from diferenca_nao_neg [OF s assms(2,3) False] show ?thesis by (simp add: nao_menor_casos)
  qed
qed

lemma menor_igual_de_nao_menor:
  "\<not> s < v \<Longrightarrow> s \<noteq> NaN \<Longrightarrow> v \<noteq> NaN \<Longrightarrow> v \<le> (s :: pyfloat)"
  by (cases s; cases v) (auto simp: pyfloat_ops)

lemma positivo_nao_NaN: "(0 :: pyfloat) < v \<Longrightarrow> v \<noteq> NaN"
  by (auto simp: positivo_casos)

lemma diferenca_NaN: "NaN - v = NaN"
  by (simp add: minus_pyfloat_def)

section \<open>The balance\<close>

lemma Conta_sacar_saldo:
  "saldo (snd (snd (Conta_sacar c v)))
     = (if \<not> saldo c < v \<and> 0 < v then saldo c - v else saldo c)"
  by (simp add: Conta_sacar_def Let_def)

lemma Conta_depositar_saldo:
  "saldo (snd (snd (Conta_depositar c v))) = (if 0 < v then saldo c + v else saldo c)"
  by (simp add: Conta_depositar_def)

lemma ContaCorrente_sacar_saldo:
  "saldo (snd (snd (ContaCorrente_sacar c v)))
     = (if \<not> limite c < v \<and> \<not> limite_saques c \<le> int (numero_saques (historico c))
           \<and> \<not> saldo c < v \<and> 0 < v
        then saldo c - v else saldo c)"
  by (simp add: ContaCorrente_sacar_def Conta_sacar_def Let_def)

lemma saldo_de_sacar:
  "saldo_de (snd (snd (sacar c v))) = saldo_de c
   \<or> (saldo_de (snd (snd (sacar c v))) = saldo_de c - v \<and> \<not> saldo_de c < v \<and> 0 < v)"
  by (cases c) (auto simp: case_prod_beta Conta_sacar_saldo ContaCorrente_sacar_saldo)

lemma saldo_de_depositar:
  "saldo_de (snd (snd (depositar c v))) = (if 0 < v then saldo_de c + v else saldo_de c)"
  by (cases c) (auto simp: case_prod_beta Conta_depositar_saldo)

lemma chamar_nao_menor: "\<not> saldo_de c < 0 \<Longrightarrow> \<not> saldo_de (chamar c x) < 0"
proof (cases x)
  case (Depositar v)
  assume "\<not> saldo_de c < 0"
  with Depositar show ?thesis by (simp add: saldo_de_depositar soma_nao_menor)
next
  case (Sacar v)
  assume "\<not> saldo_de c < 0"
  with Sacar saldo_de_sacar [of c v] show ?thesis by (auto simp: diferenca_nao_menor)
qed

lemma chamar_nao_neg:
  "0 \<le> saldo_de c \<Longrightarrow> x \<noteq> Sacar PosInf \<Longrightarrow> 0 \<le> saldo_de (chamar c x)"
proof (cases x)
  case (Depositar v)
  assume "0 \<le> saldo_de c"
  with Depositar show ?thesis by (simp add: saldo_de_depositar soma_nao_neg)
next
  case (Sacar v)
  assume "0 \<le> saldo_de c" "x \<noteq> Sacar PosInf"
  with Sacar saldo_de_sacar [of c v] show ?thesis by (auto simp: diferenca_nao_neg)
qed

lemma executar_nao_menor: "\<not> saldo_de c < 0 \<Longrightarrow> \<not> saldo_de (executar cs c) < 0"
  unfolding executar_def
  by (induction cs arbitrary: c) (simp_all add: chamar_nao_menor)

lemma executar_nao_neg:
  "0 \<le> saldo_de c \<Longrightarrow> Sacar PosInf \<notin> set cs \<Longrightarrow> 0 \<le> saldo_de (executar cs c)"
  unfolding executar_def
proof (induction cs arbitrary: c)
  case Nil
  then show ?case by simp
next
  case (Cons x cs)
  from Cons.prems have "0 \<le> saldo_de (chamar c x)" by (intro chamar_nao_neg) auto
  with Cons.IH [of "chamar c x"] Cons.prems show ?case by simp
qed

text \<open>
  On a checking account whose amount ceiling is a finite number, a withdrawal of
  \<open>+\<infinity>\<close> is above the ceiling and is refused before it reaches \<^verbatim>\<open>Conta.sacar\<close>.
\<close>

lemma chamar_teto_finito:
  assumes "limite cc = Fin l" and "0 \<le> saldo cc"
  shows "\<exists>cc'. chamar (ObjContaCorrente cc) x = ObjContaCorrente cc'
           \<and> limite cc' = Fin l \<and> 0 \<le> saldo cc'"
proof (cases x)
  case (Depositar v)
  with assms show ?thesis by (auto simp: Conta_depositar_def soma_nao_neg)
next
  case (Sacar v)
  show ?thesis
  proof (cases "\<not> limite cc < v \<and> \<not> limite_saques cc \<le> int (numero_saques (historico cc))
      \<and> \<not> saldo cc < v \<and> 0 < v")
    case True
    with assms(1) have "v \<noteq> PosInf" by (auto simp: less_pyfloat_def)
    with True assms(2) have "0 \<le> saldo cc - v" by (intro diferenca_nao_neg) auto
    with True Sacar assms(1) show ?thesis
      by (auto simp: ContaCorrente_sacar_def Conta_sacar_def Let_def)
  next
    case False
    with Sacar assms show ?thesis
      by (auto simp: ContaCorrente_sacar_def Conta_sacar_def Let_def)
  qed
qed

lemma executar_teto_finito:
  assumes "limite cc = Fin l" and "0 \<le> saldo cc"
  shows "0 \<le> saldo_de (executar cs (ObjContaCorrente cc))"
  using assms unfolding executar_def
proof (induction cs arbitrary: cc)
  case Nil
  then show ?case by simp
next
  case (Cons x cs)
  from chamar_teto_finito [OF Cons.prems, of x] obtain cc'
    where "chamar (ObjContaCorrente cc) x = ObjContaCorrente cc'" "limite cc' = Fin l"
      "0 \<le> saldo cc'" by blast
  with Cons.IH [of cc'] show ?case by simp
qed

lemma depositar_muda: "saldo_de (snd (snd (depositar c v))) \<noteq> saldo_de c \<Longrightarrow> v > 0"
  by (simp add: saldo_de_depositar split: if_splits)

lemma sacar_muda:
  assumes "saldo_de (snd (snd (sacar c v))) \<noteq> saldo_de c"
  shows "v \<le> saldo_de c \<and> v > 0"
proof -
  from assms saldo_de_sacar [of c v]
  have d: "saldo_de (snd (snd (sacar c v))) = saldo_de c - v" and n: "\<not> saldo_de c < v"
    and p: "0 < v" by auto
  from assms d have "saldo_de c \<noteq> NaN" by (auto simp: diferenca_NaN)
  with n p show ?thesis by (simp add: menor_igual_de_nao_menor positivo_nao_NaN)
qed

text \<open>
  Claim C1, as stated, fails: on an account of class \<^verbatim>\<open>Conta\<close> with balance 0, a deposit of
  \<open>+\<infinity>\<close> followed by a withdrawal of \<open>+\<infinity>\<close> are both accepted and leave the balance NaN,
  for which \<^verbatim>\<open>saldo >= 0\<close> is false.
\<close>

theorem saldo_NaN_counterexample:
  "saldo_de (ObjConta (Conta_init 1 7)) = 0
   \<and> fst (depositar (ObjConta (Conta_init 1 7)) PosInf)
   \<and> fst (sacar (snd (snd (depositar (ObjConta (Conta_init 1 7)) PosInf))) PosInf)
   \<and> saldo_de (executar [Depositar PosInf, Sacar PosInf] (ObjConta (Conta_init 1 7))) = NaN
   \<and> \<not> 0 \<le> saldo_de (executar [Depositar PosInf, Sacar PosInf] (ObjConta (Conta_init 1 7)))"
  by (simp add: executar_def modelo_defs)

text \<open>
  Claim C1, amended. For an account object of either class whose balance is 0, after any
  finite sequence of \<^verbatim>\<open>depositar\<close>/\<^verbatim>\<open>sacar\<close> calls with arbitrary float amounts the balance
  is never below 0; it is at least 0 when no withdrawal of \<open>+\<infinity>\<close> is among the calls, and
  for every sequence on a checking account whose amount ceiling is a finite number. A
  deposit changes the balance only when the amount is positive; a withdrawal changes it
  only when the amount is positive and at most the balance.
\<close>

theorem saldo_nunca_negativo:
  assumes "saldo_de c0 = 0"
  shows "\<not> saldo_de (executar cs c0) < 0
       \<and> (Sacar PosInf \<notin> set cs \<longrightarrow> 0 \<le> saldo_de (executar cs c0))
       \<and> (saldo cc = 0 \<and> limite cc = Fin l \<longrightarrow> 0 \<le> saldo_de (executar cs (ObjContaCorrente cc)))
       \<and> (saldo_de (snd (snd (depositar c1 v1))) \<noteq> saldo_de c1 \<longrightarrow> v1 > 0)
       \<and> (saldo_de (snd (snd (sacar c2 v2))) \<noteq> saldo_de c2 \<longrightarrow> v2 \<le> saldo_de c2 \<and> v2 > 0)"
proof -
  have z: "(0 :: pyfloat) \<le> 0" "\<not> (0 :: pyfloat) < 0" by (simp_all add: pyfloat_ops)
  from assms z have a: "\<not> saldo_de (executar cs c0) < 0" by (intro executar_nao_menor) simp
  from assms z have b: "Sacar PosInf \<notin> set cs \<longrightarrow> 0 \<le> saldo_de (executar cs c0)"
    by (auto intro: executar_nao_neg)
  from z have c: "saldo cc = 0 \<and> limite cc = Fin l
      \<longrightarrow> 0 \<le> saldo_de (executar cs (ObjContaCorrente cc))"
    by (auto intro: executar_teto_finito)
  from a b c depositar_muda [of c1 v1] sacar_muda [of c2 v2] show ?thesis by blast
qed

theorem saldo_nunca_negativo_witness:
  "saldo_de (ObjContaCorrente (ContaCorrente_init 1 7 (Fin 500) 3)) = 0
   \<and> saldo_de (executar [Depositar (Fin 1000), Sacar (Fin 400), Sacar PosInf, Sacar (Fin 700),
        Depositar (Fin (- 5)), Depositar NaN, Sacar NaN]
        (ObjContaCorrente (ContaCorrente_init 1 7 (Fin 500) 3))) = Fin 600
   \<and> \<not> saldo_de (executar [Depositar PosInf, Sacar PosInf] (ObjConta (Conta_init 1 7))) < 0
   \<and> Sacar PosInf \<notin> set [Depositar PosInf, Sacar (Fin 30)]
   \<and> saldo_de (executar [Depositar PosInf, Sacar (Fin 30)] (ObjConta (Conta_init 1 7))) = PosInf
   \<and> 0 \<le> saldo_de (executar [Depositar PosInf, Sacar (Fin 30)] (ObjConta (Conta_init 1 7)))
   \<and> saldo_de (snd (snd (depositar (ObjConta (Conta_init 2 7)) (Fin 10))))
        \<noteq> saldo_de (ObjConta (Conta_init 2 7))
   \<and> Fin 10 > 0
   \<and> saldo_de (snd (snd (sacar (ObjConta ((Conta_init 2 7)\<lparr>saldo := Fin 100\<rparr>)) (Fin 30))))
        \<noteq> saldo_de (ObjConta ((Conta_init 2 7)\<lparr>saldo := Fin 100\<rparr>))
   \<and> Fin 30 \<le> saldo_de (ObjConta ((Conta_init 2 7)\<lparr>saldo := Fin 100\<rparr>))"
  using saldo_nunca_negativo [where ?c0.0 = "ObjContaCorrente (ContaCorrente_init 1 7 (Fin 500) 3)"
      and cs = "[Depositar (Fin 1000), Sacar (Fin 400), Sacar PosInf, Sacar (Fin 700),
        Depositar (Fin (- 5)), Depositar NaN, Sacar NaN]"
      and cc = "ContaCorrente_init 1 7 (Fin 500) 3" and l = 500
      and ?c1.0 = "ObjConta (Conta_init 2 7)" and ?v1.0 = "Fin 10"
      and ?c2.0 = "ObjConta ((Conta_init 2 7)\<lparr>saldo := Fin 100\<rparr>)" and ?v2.0 = "Fin 30"]
    saldo_nunca_negativo [where ?c0.0 = "ObjConta (Conta_init 1 7)"
      and cs = "[Depositar PosInf, Sacar PosInf]"]
    saldo_nunca_negativo [where ?c0.0 = "ObjConta (Conta_init 1 7)"
      and cs = "[Depositar PosInf, Sacar (Fin 30)]"]
  by (simp add: executar_def modelo_defs)

text \<open>
  Claim C2, as stated, fails twice. A withdrawal of NaN gets the invalid-amount message
  although \<^verbatim>\<open>nan <= 0\<close> is false. A withdrawal of 1 from a balance of \<open>10 ^ 16\<close> reports
  success and leaves the balance \<open>10 ^ 16\<close>: the difference is rounded, not exact.
\<close>

theorem Conta_sacar_exato_counterexample:
  "0 \<le> saldo ((Conta_init 1 7)\<lparr>saldo := Fin 100\<rparr>)
   \<and> Conta_sacar ((Conta_init 1 7)\<lparr>saldo := Fin 100\<rparr>) NaN
       = (False, [MsgValorInvalido], (Conta_init 1 7)\<lparr>saldo := Fin 100\<rparr>)
   \<and> \<not> NaN \<le> (0 :: pyfloat)
   \<and> 0 \<le> saldo ((Conta_init 1 7)\<lparr>saldo := Fin 10000000000000000\<rparr>)
   \<and> Conta_sacar ((Conta_init 1 7)\<lparr>saldo := Fin 10000000000000000\<rparr>) (Fin 1)
       = (True, [MsgSaqueSucesso], (Conta_init 1 7)\<lparr>saldo := Fin 10000000000000000\<rparr>)"
  by (simp add: modelo_defs arredonda_grande)

text \<open>
  Claim C2, amended. On an account with balance at least 0, \<^verbatim>\<open>Conta.sacar\<close> fails with the
  insufficient-balance message exactly when the amount exceeds the balance, fails with the
  invalid-amount message exactly when the amount is at most 0 or is NaN, and otherwise
  succeeds and sets the balance to the float difference of balance and amount: for finite
  values the exact difference rounded to binary64, which is the exact difference whenever
  that is a binary64 number. A failure leaves the account as it was. The balance check
  comes first: on any account, an amount above the balance gets the insufficient-balance
  message whatever its sign.
\<close>

theorem Conta_sacar_contrato:
  assumes "0 \<le> saldo c"
  shows "(Conta_sacar c v = (False, [MsgSaldoInsuficiente], c) \<longleftrightarrow> v > saldo c)
       \<and> (Conta_sacar c v = (False, [MsgValorInvalido], c) \<longleftrightarrow> v \<le> 0 \<or> v = NaN)
       \<and> (\<not> v > saldo c \<and> \<not> (v \<le> 0 \<or> v = NaN) \<longrightarrow>
            Conta_sacar c v = (True, [MsgSaqueSucesso], c\<lparr>saldo := saldo c - v\<rparr>))
       \<and> (saldo c = Fin s \<and> v = Fin x \<longrightarrow> saldo c - v = arredonda (s - x))
       \<and> (saldo c = Fin s \<and> v = Fin x \<and> s - x = of_int m * 2 powi e
            \<and> \<bar>m\<bar> < 2 ^ 53 \<and> - 1074 \<le> e \<and> e \<le> 971 \<longrightarrow> saldo c - v = Fin (s - x))
       \<and> (\<not> fst (Conta_sacar c v) \<longrightarrow> snd (snd (Conta_sacar c v)) = c)
       \<and> (w > saldo d \<longrightarrow> Conta_sacar d w = (False, [MsgSaldoInsuficiente], d))"
proof -
  have inv: "\<not> saldo c < v \<Longrightarrow> (\<not> 0 < v) = (v \<le> 0 \<or> v = NaN)"
    using assms by (cases v; cases "saldo c") (auto simp: pyfloat_ops)
  have inv2: "v \<le> 0 \<or> v = NaN \<Longrightarrow> \<not> saldo c < v"
    using assms by (cases v; cases "saldo c") (auto simp: pyfloat_ops)
  have a: "Conta_sacar c v = (False, [MsgSaldoInsuficiente], c) \<longleftrightarrow> v > saldo c"
    by (auto simp: Conta_sacar_def Let_def)
  have b: "Conta_sacar c v = (False, [MsgValorInvalido], c) \<longleftrightarrow> v \<le> 0 \<or> v = NaN"
    using inv inv2 by (auto simp: Conta_sacar_def Let_def)
  have c: "\<not> v > saldo c \<and> \<not> (v \<le> 0 \<or> v = NaN) \<longrightarrow>
      Conta_sacar c v = (True, [MsgSaqueSucesso], c\<lparr>saldo := saldo c - v\<rparr>)"
    using inv by (auto simp: Conta_sacar_def Let_def)
  have d: "saldo c = Fin s \<and> v = Fin x \<longrightarrow> saldo c - v = arredonda (s - x)"
    by (simp add: minus_pyfloat_def)
  have e: "saldo c = Fin s \<and> v = Fin x \<and> s - x = of_int m * 2 powi e
      \<and> \<bar>m\<bar> < 2 ^ 53 \<and> - 1074 \<le> e \<and> e \<le> 971 \<longrightarrow> saldo c - v = Fin (s - x)"
    using arredonda_representavel [of "s - x" m e] by (auto simp: minus_pyfloat_def)
  have f: "\<not> fst (Conta_sacar c v) \<longrightarrow> snd (snd (Conta_sacar c v)) = c"
    by (auto simp: Conta_sacar_def Let_def)
  have g: "w > saldo d \<longrightarrow> Conta_sacar d w = (False, [MsgSaldoInsuficiente], d)"
    by (auto simp: Conta_sacar_def Let_def)
  from a b c d e f g show ?thesis by blast
qed

theorem Conta_sacar_contrato_witness:
  "0 \<le> saldo ((Conta_init 1 7)\<lparr>saldo := Fin 100\<rparr>)
   \<and> Conta_sacar ((Conta_init 1 7)\<lparr>saldo := Fin 100\<rparr>) (Fin 30)
       = (True, [MsgSaqueSucesso], (Conta_init 1 7)\<lparr>saldo := Fin 70\<rparr>)
   \<and> Conta_sacar ((Conta_init 1 7)\<lparr>saldo := Fin 100\<rparr>) (Fin 30)
       \<noteq> (False, [MsgSaldoInsuficiente], (Conta_init 1 7)\<lparr>saldo := Fin 100\<rparr>)
   \<and> (100 - 30 :: rat) = of_int 70 * 2 powi 0
   \<and> Conta_sacar ((Conta_init 1 7)\<lparr>saldo := Fin 100\<rparr>) NaN
       = (False, [MsgValorInvalido], (Conta_init 1 7)\<lparr>saldo := Fin 100\<rparr>)
   \<and> Conta_sacar ((Conta_init 1 7)\<lparr>saldo := Fin 100\<rparr>) (Fin 0)
       = (False, [MsgValorInvalido], (Conta_init 1 7)\<lparr>saldo := Fin 100\<rparr>)
   \<and> Conta_sacar ((Conta_init 1 7)\<lparr>saldo := Fin (- 10)\<rparr>) (Fin (- 5))
       = (False, [MsgSaldoInsuficiente], (Conta_init 1 7)\<lparr>saldo := Fin (- 10)\<rparr>)"
  using Conta_sacar_contrato [where c = "(Conta_init 1 7)\<lparr>saldo := Fin 100\<rparr>" and v = "Fin 30"
      and s = 100 and x = 30 and m = 70 and e = 0
      and w = "Fin (- 5)" and d = "(Conta_init 1 7)\<lparr>saldo := Fin (- 10)\<rparr>"]
    Conta_sacar_contrato [where c = "(Conta_init 1 7)\<lparr>saldo := Fin 100\<rparr>" and v = NaN]
    Conta_sacar_contrato [where c = "(Conta_init 1 7)\<lparr>saldo := Fin 100\<rparr>" and v = "Fin 0"]
  by (simp add: modelo_defs)

section \<open>The daily cap of Cliente.realizar\_transacao\<close>

lemma ex_a_alcancavel:
  "registrar_todas ex_hoje [Deposito (Fin 1000), Saque (Fin 500)] (ObjContaCorrente (ContaCorrente_nova_conta 7 1 (Fin 500) 50)) = ex_conta_a"
  by (simp add: ex_defs modelo_defs)

text \<open>
  Claim C3, as stated, fails: the customer \<open>ex_cliente\<close> has completed 2 operations today
  (both on \<open>ex_conta_a\<close>), and a third operation today, on the customer's other account
  \<open>ex_conta_b\<close>, is accepted: \<^verbatim>\<open>realizar_transacao\<close> reads the history of the account it is
  given, not the customer's accounts.
\<close>

theorem limite_diario_por_cliente_counterexample:
  "ex_conta_b \<in> set (contas ex_cliente)
   \<and> spec_operacoes_hoje_cliente ex_hoje ex_cliente = 2
   \<and> realizar_transacao ex_cliente ex_hoje ex_hoje ex_conta_b (Deposito (Fin 50))
      = (PyNone, [MsgDepositoSucesso],
         ObjContaCorrente ((ContaCorrente_nova_conta 7 2 (Fin 500) 50)
           \<lparr>saldo := Fin 50, historico := [\<lparr>tipo = ''Deposito'', valor = Fin 50, data = ex_hoje\<rparr>]\<rparr>))"
  by (simp add: ex_defs modelo_defs spec_operacoes_hoje_cliente_def)

text \<open>
  Claim C3, amended. The cap is per account: an operation on an account whose own history
  holds 2 or more entries dated today is rejected with the daily-limit message and the
  account (balance and history) is unchanged; with fewer than 2 such entries the call is
  what \<^verbatim>\<open>transacao.registrar(conta)\<close> does; entries dated another day do not count, so on
  a day with no entry of its own the transaction is handed to \<^verbatim>\<open>registrar\<close>.
\<close>

theorem limite_diario_por_conta:
  "(length (transacoes_do_dia agora_dia (historico_de c)) \<ge> 2 \<longrightarrow>
      realizar_transacao self agora_dia agora_reg c t = (PyNone, [MsgTransacoesDia], c))
   \<and> (length (transacoes_do_dia agora_dia (historico_de c)) < 2 \<longrightarrow>
      realizar_transacao self agora_dia agora_reg c t
        = (PyNone, fst (snd (registrar agora_reg t c)), snd (snd (registrar agora_reg t c))))
   \<and> ((\<forall>r \<in> set (historico_de c). date (data r) \<noteq> date agora_dia) \<longrightarrow>
      realizar_transacao self agora_dia agora_reg c t
        = (PyNone, fst (snd (registrar agora_reg t c)), snd (snd (registrar agora_reg t c))))"
proof -
  have vazio: "transacoes_do_dia agora_dia (historico_de c) = []"
    if "\<forall>r \<in> set (historico_de c). date (data r) \<noteq> date agora_dia"
    using that by (auto simp: transacoes_do_dia_def filter_empty_conv)
  show ?thesis
    by (auto simp: realizar_transacao_def vazio split: prod.splits)
qed

theorem limite_diario_por_conta_witness:
  "length (transacoes_do_dia ex_hoje (historico_de ex_conta_a)) \<ge> 2
   \<and> realizar_transacao ex_cliente ex_hoje ex_hoje ex_conta_a (Saque (Fin 500))
       = (PyNone, [MsgTransacoesDia], ex_conta_a)
   \<and> saldo_de ex_conta_a = Fin 500 \<and> length (historico_de ex_conta_a) = 2
   \<and> length (transacoes_do_dia ex_hoje (historico_de ex_conta_b)) < 2
   \<and> realizar_transacao ex_cliente ex_hoje ex_hoje ex_conta_b (Deposito (Fin 50))
       = (PyNone, fst (snd (registrar ex_hoje (Deposito (Fin 50)) ex_conta_b)),
          snd (snd (registrar ex_hoje (Deposito (Fin 50)) ex_conta_b)))
   \<and> transacoes_do_dia ex_amanha (historico_de ex_conta_a) = []
   \<and> fst (snd (realizar_transacao ex_cliente ex_amanha ex_amanha ex_conta_a (Saque (Fin 500))))
       = [MsgSaqueSucesso]
   \<and> saldo_de (snd (snd (realizar_transacao ex_cliente ex_amanha ex_amanha ex_conta_a (Saque (Fin 500))))) = 0"
  using limite_diario_por_conta [where c = ex_conta_a and agora_dia = ex_hoje and agora_reg = ex_hoje
      and self = ex_cliente and t = "Saque (Fin 500)"]
    limite_diario_por_conta [where c = ex_conta_b and agora_dia = ex_hoje and agora_reg = ex_hoje
      and self = ex_cliente and t = "Deposito (Fin 50)"]
    limite_diario_por_conta [where c = ex_conta_a and agora_dia = ex_amanha and agora_reg = ex_amanha
      and self = ex_cliente and t = "Saque (Fin 500)"]
  by (simp add: ex_defs modelo_defs)

text \<open>
  Claim C9. When the history of the account holds 2 or more entries dated today,
  \<^verbatim>\<open>realizar_transacao\<close> prints the daily-limit message alone and leaves the account as it
  was, for every transaction: none of the messages of the amount, balance and ceiling
  checks is printed.
\<close>

theorem limite_diario_precede:
  assumes "length (transacoes_do_dia agora_dia (historico_de c)) \<ge> 2"
  shows "realizar_transacao self agora_dia agora_reg c t = (PyNone, [MsgTransacoesDia], c)
       \<and> set (fst (snd (realizar_transacao self agora_dia agora_reg c t)))
           \<inter> {MsgValorInvalido, MsgSaldoInsuficiente, MsgLimiteExcedido, MsgSaquesExcedidos} = {}"
  using assms by (simp add: realizar_transacao_def)

theorem limite_diario_precede_witness:
  "length (transacoes_do_dia ex_hoje (historico_de ex_conta_a)) \<ge> 2
   \<and> realizar_transacao ex_cliente ex_hoje ex_hoje ex_conta_a (Saque (Fin (- 5)))
       = (PyNone, [MsgTransacoesDia], ex_conta_a)
   \<and> fst (snd (registrar ex_hoje (Saque (Fin (- 5))) ex_conta_a)) = [MsgValorInvalido]
   \<and> realizar_transacao ex_cliente ex_hoje ex_hoje ex_conta_a (Saque (Fin 10000))
       = (PyNone, [MsgTransacoesDia], ex_conta_a)
   \<and> fst (snd (registrar ex_hoje (Saque (Fin 10000)) ex_conta_a)) = [MsgLimiteExcedido]
   \<and> realizar_transacao ex_cliente ex_hoje ex_hoje ex_conta_a (Saque (Fin 501))
       = (PyNone, [MsgTransacoesDia], ex_conta_a)
   \<and> realizar_transacao ex_cliente ex_hoje ex_hoje ex_conta_a (Deposito (Fin 0))
       = (PyNone, [MsgTransacoesDia], ex_conta_a)
   \<and> fst (snd (registrar ex_hoje (Deposito (Fin 0)) ex_conta_a)) = [MsgValorInvalido]"
  using limite_diario_precede [where c = ex_conta_a and agora_dia = ex_hoje and agora_reg = ex_hoje
      and self = ex_cliente and t = "Saque (Fin (- 5))"]
    limite_diario_precede [where c = ex_conta_a and agora_dia = ex_hoje and agora_reg = ex_hoje
      and self = ex_cliente and t = "Saque (Fin 10000)"]
    limite_diario_precede [where c = ex_conta_a and agora_dia = ex_hoje and agora_reg = ex_hoje
      and self = ex_cliente and t = "Saque (Fin 501)"]
    limite_diario_precede [where c = ex_conta_a and agora_dia = ex_hoje and agora_reg = ex_hoje
      and self = ex_cliente and t = "Deposito (Fin 0)"]
  by (simp add: ex_defs modelo_defs)

section \<open>The ceilings of ContaCorrente.sacar\<close>

text \<open>
  Claim C4, as stated, fails: \<open>ex_tres_saques\<close> holds as many withdrawals as its ceiling
  allows (3), and a withdrawal of 600, above the amount ceiling of 500, is rejected with
  the amount-ceiling message, not with the withdrawal-count message.
\<close>

theorem teto_de_saques_counterexample:
  "registrar_todas ex_hoje [Deposito (Fin 2000), Saque (Fin 100), Saque (Fin 100), Saque (Fin 100)]
      (ObjContaCorrente (ContaCorrente_init 1 7 (Fin 500) 3)) = ObjContaCorrente ex_tres_saques
   \<and> int (numero_saques (historico ex_tres_saques)) = limite_saques ex_tres_saques
   \<and> ContaCorrente_sacar ex_tres_saques (Fin 600) = (False, [MsgLimiteExcedido], ex_tres_saques)
   \<and> fst (snd (ContaCorrente_sacar ex_tres_saques (Fin 600))) \<noteq> [MsgSaquesExcedidos]"
  by (simp add: ex_defs modelo_defs)

text \<open>
  Claim C4, amended. On a checking account whose history holds as many withdrawal entries
  as its withdrawal-count ceiling, the next withdrawal is rejected whatever the amount and
  the balance, and the account (balance and history) is unchanged, also through
  \<^verbatim>\<open>Saque.registrar\<close>; the message is the withdrawal-count one when the amount is at most
  the amount ceiling, and the amount-ceiling one when the amount is above it.
\<close>

theorem saque_apos_teto_de_saques:
  assumes "int (numero_saques (historico c)) = limite_saques c"
  shows "(\<not> v > limite c \<longrightarrow> ContaCorrente_sacar c v = (False, [MsgSaquesExcedidos], c))
       \<and> (v > limite c \<longrightarrow> ContaCorrente_sacar c v = (False, [MsgLimiteExcedido], c))
       \<and> registrar agora (Saque v) (ObjContaCorrente c)
           = (PyNone, fst (snd (ContaCorrente_sacar c v)), ObjContaCorrente c)"
  using assms by (auto simp: ContaCorrente_sacar_def Let_def)

theorem saque_apos_teto_de_saques_witness:
  "int (numero_saques (historico ex_tres_saques)) = limite_saques ex_tres_saques
   \<and> ContaCorrente_sacar ex_tres_saques (Fin 100) = (False, [MsgSaquesExcedidos], ex_tres_saques)
   \<and> registrar ex_amanha (Saque (Fin 100)) (ObjContaCorrente ex_tres_saques)
       = (PyNone, [MsgSaquesExcedidos], ObjContaCorrente ex_tres_saques)
   \<and> ContaCorrente_sacar ex_tres_saques (Fin 600) = (False, [MsgLimiteExcedido], ex_tres_saques)
   \<and> registrar ex_amanha (Saque (Fin 600)) (ObjContaCorrente ex_tres_saques)
       = (PyNone, [MsgLimiteExcedido], ObjContaCorrente ex_tres_saques)"
  using saque_apos_teto_de_saques [where c = ex_tres_saques and v = "Fin 100" and agora = ex_amanha]
    saque_apos_teto_de_saques [where c = ex_tres_saques and v = "Fin 600" and agora = ex_amanha]
  by (simp add: ex_defs modelo_defs)

text \<open>
  Claim C5. \<^verbatim>\<open>ContaCorrente.sacar\<close> fails with the amount-ceiling message exactly when the
  amount exceeds \<^verbatim>\<open>_limite\<close>; otherwise it fails with the withdrawal-count message exactly
  when the number of withdrawal entries in the history is at least \<^verbatim>\<open>_limite_saques\<close>;
  when both checks pass the result is that of \<^verbatim>\<open>Conta.sacar\<close>. The count is over the whole
  history: it does not depend on the dates of the entries.
\<close>

lemma numero_saques_data:
  "numero_saques (map (\<lambda>r. r\<lparr>data := d\<rparr>) h) = numero_saques h"
  by (simp add: numero_saques_def filter_map o_def)

theorem ContaCorrente_sacar_ordem:
  "(ContaCorrente_sacar c v = (False, [MsgLimiteExcedido], c) \<longleftrightarrow> v > limite c)
   \<and> (ContaCorrente_sacar c v = (False, [MsgSaquesExcedidos], c) \<longleftrightarrow>
        \<not> v > limite c \<and> int (numero_saques (historico c)) \<ge> limite_saques c)
   \<and> (\<not> v > limite c \<and> \<not> int (numero_saques (historico c)) \<ge> limite_saques c \<longrightarrow>
        ContaCorrente_sacar c v = Conta_sacar c v)
   \<and> numero_saques (map (\<lambda>r. r\<lparr>data := d\<rparr>) (historico c)) = numero_saques (historico c)"
  by (auto simp: ContaCorrente_sacar_def Conta_sacar_def Let_def numero_saques_data)

theorem ContaCorrente_sacar_ordem_witness:
  "ContaCorrente_sacar ex_tres_saques (Fin 600) = (False, [MsgLimiteExcedido], ex_tres_saques)
   \<and> Fin 600 > limite ex_tres_saques
   \<and> ContaCorrente_sacar ex_tres_saques (Fin 100) = (False, [MsgSaquesExcedidos], ex_tres_saques)
   \<and> int (numero_saques (historico ex_tres_saques)) \<ge> limite_saques ex_tres_saques
   \<and> \<not> int (numero_saques (historico (ex_tres_saques\<lparr>limite_saques := 50\<rparr>))) \<ge> 50
   \<and> ContaCorrente_sacar (ex_tres_saques\<lparr>limite_saques := 50\<rparr>) (Fin 100)
       = Conta_sacar (ex_tres_saques\<lparr>limite_saques := 50\<rparr>) (Fin 100)
   \<and> ContaCorrente_sacar (ex_tres_saques\<lparr>limite_saques := 50\<rparr>) (Fin 100)
       = (True, [MsgSaqueSucesso], ex_tres_saques\<lparr>limite_saques := 50, saldo := Fin 1600\<rparr>)
   \<and> numero_saques (map (\<lambda>r. r\<lparr>data := ex_amanha\<rparr>) (historico ex_tres_saques)) = 3"
  using ContaCorrente_sacar_ordem [where c = ex_tres_saques and v = "Fin 600" and d = ex_amanha]
    ContaCorrente_sacar_ordem [where c = ex_tres_saques and v = "Fin 100" and d = ex_amanha]
    ContaCorrente_sacar_ordem [where c = "ex_tres_saques\<lparr>limite_saques := 50\<rparr>" and v = "Fin 100"
      and d = ex_amanha]
  by (simp add: ex_defs modelo_defs)

section \<open>Transactions and the history\<close>

lemma historico_sacar: "historico_de (snd (snd (sacar c v))) = historico_de c"
  by (cases c) (auto simp: Conta_sacar_def ContaCorrente_sacar_def Let_def)

lemma historico_depositar: "historico_de (snd (snd (depositar c v))) = historico_de c"
  by (cases c) (auto simp: Conta_depositar_def)

lemma historico_com_historico: "historico_de (com_historico c h) = h"
  by (cases c) simp_all

lemma saldo_com_historico: "saldo_de (com_historico c h) = saldo_de c"
  by (cases c) simp_all

lemma registrar_Saque:
  "registrar agora (Saque v) c =
     (PyNone, fst (snd (sacar c v)),
      if fst (sacar c v)
      then com_historico (snd (snd (sacar c v)))
             (historico_de c @ [\<lparr>tipo = ''Saque'', valor = v, data = agora\<rparr>])
      else snd (snd (sacar c v)))"
proof -
  obtain ok out c' where eq: "sacar c v = (ok, out, c')" by (cases "sacar c v")
  with historico_sacar [of c v] have "historico_de c' = historico_de c" by simp
  with eq show ?thesis by (simp add: adicionar_transacao_def)
qed

lemma registrar_Deposito:
  "registrar agora (Deposito v) c =
     (PyNone, fst (snd (depositar c v)),
      if fst (depositar c v)
      then com_historico (snd (snd (depositar c v)))
             (historico_de c @ [\<lparr>tipo = ''Deposito'', valor = v, data = agora\<rparr>])
      else snd (snd (depositar c v)))"
proof -
  obtain ok out c' where eq: "depositar c v = (ok, out, c')" by (cases "depositar c v")
  with historico_depositar [of c v] have "historico_de c' = historico_de c" by simp
  with eq show ?thesis by (simp add: adicionar_transacao_def)
qed

text \<open>
  Claim C6. \<^verbatim>\<open>registrar\<close> of a withdrawal (a deposit) appends to the history of the account
  exactly one entry, with the class name and the amount of the transaction, precisely when
  \<^verbatim>\<open>sacar\<close> (\<^verbatim>\<open>depositar\<close>) reports success, and leaves the history as it was precisely when
  the primitive fails; the balance is the one the primitive left.
\<close>

theorem registrar_historico:
  "(fst (sacar c v) \<longleftrightarrow>
      historico_de (snd (snd (registrar agora (Saque v) c)))
        = historico_de c @ [\<lparr>tipo = ''Saque'', valor = v, data = agora\<rparr>])
   \<and> (\<not> fst (sacar c v) \<longleftrightarrow>
      historico_de (snd (snd (registrar agora (Saque v) c))) = historico_de c)
   \<and> (fst (depositar c v) \<longleftrightarrow>
      historico_de (snd (snd (registrar agora (Deposito v) c)))
        = historico_de c @ [\<lparr>tipo = ''Deposito'', valor = v, data = agora\<rparr>])
   \<and> (\<not> fst (depositar c v) \<longleftrightarrow>
      historico_de (snd (snd (registrar agora (Deposito v) c))) = historico_de c)
   \<and> saldo_de (snd (snd (registrar agora (Saque v) c))) = saldo_de (snd (snd (sacar c v)))
   \<and> saldo_de (snd (snd (registrar agora (Deposito v) c))) = saldo_de (snd (snd (depositar c v)))"
  by (simp add: registrar_Saque registrar_Deposito historico_com_historico saldo_com_historico
      historico_sacar historico_depositar del: registrar.simps)

theorem registrar_historico_witness:
  "fst (sacar ex_conta_a (Fin 200))
   \<and> historico_de (snd (snd (registrar ex_amanha (Saque (Fin 200)) ex_conta_a)))
       = historico_de ex_conta_a @ [\<lparr>tipo = ''Saque'', valor = Fin 200, data = ex_amanha\<rparr>]
   \<and> length (historico_de (snd (snd (registrar ex_amanha (Saque (Fin 200)) ex_conta_a)))) = 3
   \<and> \<not> fst (sacar ex_conta_a (Fin 501))
   \<and> historico_de (snd (snd (registrar ex_amanha (Saque (Fin 501)) ex_conta_a))) = historico_de ex_conta_a
   \<and> \<not> fst (depositar ex_conta_a (Fin 0))
   \<and> historico_de (snd (snd (registrar ex_amanha (Deposito (Fin 0)) ex_conta_a))) = historico_de ex_conta_a"
  using registrar_historico [where c = ex_conta_a and v = "Fin 200" and agora = ex_amanha]
    registrar_historico [where c = ex_conta_a and v = "Fin 501" and agora = ex_amanha]
    registrar_historico [where c = ex_conta_a and v = "Fin 0" and agora = ex_amanha]
  by (simp add: ex_defs modelo_defs)

section \<open>Reports\<close>

lemma consumir_fim: "\<not> indice g < length h \<Longrightarrow> consumir h g = []"
  by (subst consumir.simps, subst proximo.simps) simp

lemma consumir_passo:
  assumes "indice g < length h"
  shows "consumir h g =
     (if aceita (tipo_transacao g) (h ! indice g)
      then h ! indice g # consumir h (g\<lparr>indice := indice g + 1\<rparr>)
      else consumir h (g\<lparr>indice := indice g + 1\<rparr>))"
proof (cases "aceita (tipo_transacao g) (h ! indice g)")
  case True
  with assms have "proximo h g = (Some (h ! indice g), g\<lparr>indice := indice g + 1\<rparr>)"
    by (subst proximo.simps) (simp add: Let_def)
  with True show ?thesis by (subst consumir.simps) simp
next
  case False
  with assms have "proximo h g = proximo h (g\<lparr>indice := indice g + 1\<rparr>)"
    by (subst proximo.simps) (simp add: Let_def)
  then have "consumir h g = consumir h (g\<lparr>indice := indice g + 1\<rparr>)"
    by (subst consumir.simps, subst (2) consumir.simps) simp
  with False show ?thesis by simp
qed

lemma consumir_drop:
  "consumir h g = filter (aceita (tipo_transacao g)) (drop (indice g) h)"
proof (induction "length h - indice g" arbitrary: g)
  case 0
  then show ?case by (simp add: consumir_fim)
next
  case (Suc n)
  then have lt: "indice g < length h" by simp
  let ?g' = "g\<lparr>indice := indice g + 1\<rparr>"
  from Suc have "n = length h - indice ?g'" by simp
  from Suc.hyps(1)[OF this]
  have ih: "consumir h ?g' = filter (aceita (tipo_transacao g)) (drop (Suc (indice g)) h)" by simp
  from lt have "drop (indice g) h = h ! indice g # drop (Suc (indice g)) h"
    by (simp add: Cons_nth_drop_Suc)
  with ih show ?case by (simp add: consumir_passo [OF lt])
qed

lemma proximo_fim: "proximo h g = (None, g') \<Longrightarrow> \<not> indice g' < length h"
proof (induction h g rule: proximo.induct)
  case (1 h g)
  show ?case
  proof (cases "indice g < length h")
    case False
    with "1.prems" show ?thesis by (subst (asm) proximo.simps) simp
  next
    case True
    show ?thesis
    proof (cases "aceita (tipo_transacao g) (h ! indice g)")
      case True
      with \<open>indice g < length h\<close> "1.prems" show ?thesis
        by (subst (asm) proximo.simps) (simp add: Let_def)
    next
      case False
      with \<open>indice g < length h\<close> "1.prems"
      have "proximo h (g\<lparr>indice := indice g + 1\<rparr>) = (None, g')"
        by (subst (asm) proximo.simps) (simp add: Let_def)
      from "1.IH"[OF \<open>indice g < length h\<close> refl refl False this] show ?thesis .
    qed
  qed
qed

lemma consumir_apos_proximo: "consumir h (snd (proximo h g)) = tl (consumir h g)"
proof (cases "proximo h g")
  case (Pair r g')
  show ?thesis
  proof (cases r)
    case None
    with Pair have "consumir h g' = []" by (simp add: consumir_fim proximo_fim)
    moreover from Pair None have "consumir h g = []" by (subst consumir.simps) simp
    ultimately show ?thesis using Pair by simp
  next
    case (Some t)
    with Pair have "consumir h g = t # consumir h g'" by (subst consumir.simps) simp
    with Pair show ?thesis by simp
  qed
qed

text \<open>
  Claim C7. Consuming the generator of \<^verbatim>\<open>gerar_relatorio()\<close> yields all entries in insertion
  order; with a filter it yields exactly the entries whose tipo equals the filter after
  lower-casing both, in insertion order. Every call builds a generator that starts at the
  first entry, and the sequence is finite. The position belongs to the generator object:
  after one \<^verbatim>\<open>next()\<close> the same generator yields the rest only.
\<close>

theorem gerar_relatorio_sequencia:
  "consumir h (gerar_relatorio None) = h
   \<and> consumir h (gerar_relatorio (Some f)) = [t \<leftarrow> h. lower (tipo t) = lower f]
   \<and> indice (gerar_relatorio k) = 0
   \<and> length (consumir h (gerar_relatorio k)) \<le> length h
   \<and> consumir h (snd (proximo h (gerar_relatorio k))) = tl (consumir h (gerar_relatorio k))"
proof -
  have a: "consumir h (gerar_relatorio None) = h"
    by (simp add: consumir_drop gerar_relatorio_def aceita_def)
  have b: "consumir h (gerar_relatorio (Some f)) = [t \<leftarrow> h. lower (tipo t) = lower f]"
    by (simp add: consumir_drop gerar_relatorio_def aceita_def cong: filter_cong)
  have c: "indice (gerar_relatorio k) = 0" by (simp add: gerar_relatorio_def)
  have d: "length (consumir h (gerar_relatorio k)) \<le> length h"
    by (simp add: consumir_drop gerar_relatorio_def)
  have e: "consumir h (snd (proximo h (gerar_relatorio k))) = tl (consumir h (gerar_relatorio k))"
    by (rule consumir_apos_proximo)
  from a b c d e show ?thesis by blast
qed

lemma lower_ex: "lower ''Saque'' = ''saque''" "lower ''SAQUE'' = ''saque''"
  "lower ''Deposito'' = ''deposito''" "lower ''withdrawal'' = ''withdrawal''"
  by code_simp+

theorem gerar_relatorio_sequencia_witness:
  "consumir ex_extrato (gerar_relatorio None) = ex_extrato
   \<and> consumir ex_extrato (gerar_relatorio (Some ''SAQUE''))
       = [\<lparr>tipo = ''Saque'', valor = Fin 500, data = ex_hoje\<rparr>,
          \<lparr>tipo = ''Saque'', valor = Fin 20, data = ex_amanha\<rparr>]
   \<and> consumir ex_extrato (gerar_relatorio (Some ''withdrawal'')) = []
   \<and> consumir ex_extrato (snd (proximo ex_extrato (gerar_relatorio (Some ''SAQUE''))))
       = [\<lparr>tipo = ''Saque'', valor = Fin 20, data = ex_amanha\<rparr>]"
  using gerar_relatorio_sequencia [where h = ex_extrato and f = "''SAQUE''" and k = "Some ''SAQUE''"]
    gerar_relatorio_sequencia [where h = ex_extrato and f = "''withdrawal''" and k = None]
  by (simp add: ex_extrato_def lower_ex)

section \<open>Deposits on a checking account\<close>

text \<open>
  Claim C8, as stated, fails: on \<open>ex_conta_grande\<close>, whose balance is \<open>10 ^ 16\<close>, a deposit
  of 1 succeeds and leaves the balance \<open>10 ^ 16\<close>: the sum is rounded, and the balance does
  not grow by the amount.
\<close>

theorem deposito_absorvido_counterexample:
  "snd (snd (registrar ex_hoje (Deposito (Fin 10000000000000000))
       (ObjContaCorrente (ContaCorrente_nova_conta 7 3 (Fin 500) 50))))
     = ObjContaCorrente ex_conta_grande
   \<and> Fin 1 > 0
   \<and> depositar (ObjContaCorrente ex_conta_grande) (Fin 1)
       = (True, [MsgDepositoSucesso], ObjContaCorrente ex_conta_grande)
   \<and> saldo ex_conta_grande = Fin 10000000000000000"
  by (simp add: ex_defs modelo_defs arredonda_grande)

text \<open>
  Claim C8, amended. On a checking account every deposit of a positive amount succeeds,
  whatever the two ceilings and the withdrawals in the history: the call runs
  \<^verbatim>\<open>Conta.depositar\<close>, and ceilings and history stay as they were. The balance becomes the
  float sum of balance and amount: for finite values the exact sum rounded to binary64,
  which is the exact sum whenever that is a binary64 number.
\<close>

theorem deposito_isento_dos_tetos:
  assumes "v > 0"
  shows "depositar (ObjContaCorrente c) v
           = (True, [MsgDepositoSucesso], ObjContaCorrente (c\<lparr>saldo := saldo c + v\<rparr>))
       \<and> Conta_depositar c v = (True, [MsgDepositoSucesso], c\<lparr>saldo := saldo c + v\<rparr>)
       \<and> saldo_de (snd (snd (depositar (ObjContaCorrente c) v))) = saldo c + v
       \<and> limite (c\<lparr>saldo := saldo c + v\<rparr>) = limite c
       \<and> limite_saques (c\<lparr>saldo := saldo c + v\<rparr>) = limite_saques c
       \<and> historico (c\<lparr>saldo := saldo c + v\<rparr>) = historico c
       \<and> (saldo c = Fin s \<and> v = Fin x \<longrightarrow> saldo c + v = arredonda (s + x))
       \<and> (saldo c = Fin s \<and> v = Fin x \<and> s + x = of_int m * 2 powi e
            \<and> \<bar>m\<bar> < 2 ^ 53 \<and> - 1074 \<le> e \<and> e \<le> 971 \<longrightarrow> saldo c + v = Fin (s + x))"
proof -
  have a: "saldo c = Fin s \<and> v = Fin x \<longrightarrow> saldo c + v = arredonda (s + x)"
    by (simp add: plus_pyfloat_def)
  have b: "saldo c = Fin s \<and> v = Fin x \<and> s + x = of_int m * 2 powi e
      \<and> \<bar>m\<bar> < 2 ^ 53 \<and> - 1074 \<le> e \<and> e \<le> 971 \<longrightarrow> saldo c + v = Fin (s + x)"
    using arredonda_representavel [of "s + x" m e] by (auto simp: plus_pyfloat_def)
  from assms a b show ?thesis by (simp add: Conta_depositar_def)
qed

theorem deposito_isento_dos_tetos_witness:
  "Fin 1000 > 0 \<and> Fin 1000 > limite ex_tres_saques
   \<and> int (numero_saques (historico ex_tres_saques)) \<ge> limite_saques ex_tres_saques
   \<and> (1700 + 1000 :: rat) = of_int 2700 * 2 powi 0
   \<and> depositar (ObjContaCorrente ex_tres_saques) (Fin 1000)
       = (True, [MsgDepositoSucesso], ObjContaCorrente (ex_tres_saques\<lparr>saldo := Fin 2700\<rparr>))
   \<and> fst (sacar (ObjContaCorrente ex_tres_saques) (Fin 1000)) = False
   \<and> depositar (ObjContaCorrente ex_tres_saques) PosInf
       = (True, [MsgDepositoSucesso], ObjContaCorrente (ex_tres_saques\<lparr>saldo := PosInf\<rparr>))"
  using deposito_isento_dos_tetos [where c = ex_tres_saques and v = "Fin 1000"
      and s = 1700 and x = 1000 and m = 2700 and e = 0]
    deposito_isento_dos_tetos [where c = ex_tres_saques and v = PosInf]
  by (simp add: ex_defs modelo_defs)

section \<open>What the entry points return\<close>

text \<open>
  Claim C10. \<^verbatim>\<open>Cliente.realizar_transacao\<close> and \<^verbatim>\<open>registrar\<close> of both transaction classes
  return \<^verbatim>\<open>None\<close> for every account, transaction and clock reading, accepted or rejected.
\<close>

theorem retorno_sempre_None:
  "fst (realizar_transacao self agora_dia agora_reg c t) = PyNone
   \<and> fst (registrar agora_reg t c) = PyNone"
  by (cases t) (auto simp: realizar_transacao_def split: prod.splits)

theorem retorno_sempre_None_witness:
  "realizar_transacao ex_cliente ex_hoje ex_hoje ex_conta_b (Deposito (Fin 50))
     = (PyNone, [MsgDepositoSucesso], snd (snd (registrar ex_hoje (Deposito (Fin 50)) ex_conta_b)))
   \<and> saldo_de (snd (snd (registrar ex_hoje (Deposito (Fin 50)) ex_conta_b))) = Fin 50
   \<and> realizar_transacao ex_cliente ex_hoje ex_hoje ex_conta_b (Deposito (Fin 0))
     = (PyNone, [MsgValorInvalido], ex_conta_b)
   \<and> realizar_transacao ex_cliente ex_hoje ex_hoje ex_conta_a (Deposito (Fin 50))
     = (PyNone, [MsgTransacoesDia], ex_conta_a)
   \<and> registrar ex_hoje (Saque (Fin 50)) ex_conta_b = (PyNone, [MsgSaldoInsuficiente], ex_conta_b)"
  using retorno_sempre_None [where self = ex_cliente and agora_dia = ex_hoje and agora_reg = ex_hoje
      and c = ex_conta_b and t = "Deposito (Fin 50)"]
  by (simp add: ex_defs modelo_defs)

end
